theory Spec2Isabelle
  imports Complex_Main "HOL-Library.Sublist"
begin

section \<open>Python values loaded from the YAML specification\<close>

text \<open>
  \<^verbatim>\<open>URDFExporter.__init__\<close> stores \<^verbatim>\<open>yaml.safe_load(f)\<close> in \<^verbatim>\<open>self.spec\<close>. The loaded
  document is a dynamically typed Python value. The model covers the values of YAML's core
  schema: \<^verbatim>\<open>None\<close>, \<^verbatim>\<open>bool\<close>, \<^verbatim>\<open>int\<close>, \<^verbatim>\<open>float\<close>, \<^verbatim>\<open>str\<close>, \<^verbatim>\<open>list\<close> and \<^verbatim>\<open>dict\<close> with string keys
  (an association list in insertion order, keys distinct). A \<^typ>\<open>string\<close> stands for a Python
  \<^verbatim>\<open>str\<close> whose code points are below 256, one \<^typ>\<open>char\<close> per code point.

  A \<^verbatim>\<open>float\<close> is an IEEE 754 double: \<open>Finite s m e\<close> is the number \<open>m * 2 ^ e\<close>, negated when
  \<open>s\<close> holds, in canonical form (\<open>is_double\<close> below); \<open>Infinite s\<close> is \<^verbatim>\<open>inf\<close> or \<^verbatim>\<open>-inf\<close>.
\<close>

datatype pyfloat = Finite bool int int | Infinite bool | NaN

datatype yaml =
    YNone
  | YBool bool
  | YInt int
  | YFloat pyfloat
  | YStr string
  | YList "yaml list"
  | YDict "(string \<times> yaml) list"

text \<open>The exceptions the exporter's expressions can raise, and the one of the file write.\<close>

datatype pyerr =
    KeyError yaml
  | IndexError
  | TypeError
  | AttributeError
  | OSError

definition and_then :: "pyerr + 'a \<Rightarrow> ('a \<Rightarrow> pyerr + 'b) \<Rightarrow> pyerr + 'b" where
  "and_then r f = (case r of Inl e \<Rightarrow> Inl e | Inr v \<Rightarrow> f v)"

subsection \<open>Floats: canonical form, doubling, \<^verbatim>\<open>repr\<close>\<close>

definition is_double :: "pyfloat \<Rightarrow> bool" where
  "is_double f =
     (case f of
        Finite s m e \<Rightarrow>
          (2 ^ 52 \<le> m \<and> m < 2 ^ 53 \<and> - 1074 \<le> e \<and> e \<le> 971) \<or> (0 \<le> m \<and> m < 2 ^ 52 \<and> e = - 1074)
      | _ \<Rightarrow> True)"


text \<open>\<^verbatim>\<open>x * 2\<close> on a double: exact, except that the largest binade overflows to infinity.\<close>

definition float_mul2 :: "pyfloat \<Rightarrow> pyfloat" where
  "float_mul2 f =
     (case f of
        Finite s m e \<Rightarrow>
          if m = 0 then Finite s m e
          else if m < 2 ^ 52 then Finite s (2 * m) e
          else if 971 \<le> e then Infinite s
          else Finite s m (e + 1)
      | Infinite s \<Rightarrow> Infinite s
      | NaN \<Rightarrow> NaN)"

text \<open>\<^verbatim>\<open>str\<close> of an \<^verbatim>\<open>int\<close>: decimal digits, most significant first, \<^verbatim>\<open>-\<close> in front when negative.\<close>

function digits_str :: "int \<Rightarrow> string" where
  "digits_str n =
     (if n < 10 then [''0123456789'' ! nat n]
      else digits_str (n div 10) @ [''0123456789'' ! nat (n mod 10)])"
  by pat_completeness auto
termination
  by (relation "measure nat") auto

declare digits_str.simps [simp del]

definition int_str :: "int \<Rightarrow> string" where
  "int_str i = (if i < 0 then ''-'' @ digits_str (- i) else digits_str i)"

text \<open>
  \<^verbatim>\<open>repr\<close> of a finite non-zero double \<open>m * 2 ^ e\<close> is the shortest decimal \<open>c * 10 ^ k\<close> that
  reads back as the same double, the nearest one when there are several. \<open>reads_back\<close>
  compares \<open>c * 10 ^ k\<close> with the midpoints to the neighbouring doubles (numerators over the
  common denominator \<open>4 * 2 ^ (- e)\<close>); a midpoint itself reads back to the double with the
  even significand.
\<close>

definition reads_back :: "int \<Rightarrow> int \<Rightarrow> int \<Rightarrow> int \<Rightarrow> bool" where
  "reads_back m e c k =
     (let u = 2 ^ nat e;
          v4 = 4 * m * u;
          hi4 = v4 + 2 * u;
          lo4 = v4 - (if m = 2 ^ 52 \<and> - 1074 < e then u else 2 * u);
          a = c * 10 ^ nat k * (4 * 2 ^ nat (- e));
          l = lo4 * 10 ^ nat (- k);
          h = hi4 * 10 ^ nat (- k)
      in (l < a \<and> a < h) \<or> (even m \<and> (a = l \<or> a = h)))"

text \<open>\<open>decimal_exponent m e\<close> is the \<open>p\<close> with \<open>10 ^ p \<le> m * 2 ^ e < 10 ^ (p + 1)\<close>.\<close>

definition decimal_exponent :: "int \<Rightarrow> int \<Rightarrow> int" where
  "decimal_exponent m e =
     (let n = m * 2 ^ nat e; d = 2 ^ nat (- e)
      in if d \<le> n then int (length (digits_str (n div d))) - 1
         else - int (length (digits_str ((d - 1) div n))))"

text \<open>
  The search tries 1, 2, ... significant digits; with \<open>n\<close> digits the candidates are the two
  \<open>n\<close>-digit decimals around the value. Seventeen digits always suffice for a double.
\<close>

fun shortest_decimal :: "nat \<Rightarrow> nat \<Rightarrow> int \<Rightarrow> int \<Rightarrow> int \<Rightarrow> int \<times> int" where
  "shortest_decimal 0 n m e p = (m * 2 ^ nat e * 10 ^ nat (int n - 1 - p) div (2 ^ nat (- e) * 10 ^ nat (p - int n + 1)), p - int n + 1)"
| "shortest_decimal (Suc fuel) n m e p =
     (let k = p - int n + 1;
          num = m * 2 ^ nat e * 10 ^ nat (- k);
          den = 2 ^ nat (- e) * 10 ^ nat k;
          c = num div den;
          lo_ok = reads_back m e c k;
          hi_ok = reads_back m e (c + 1) k
      in if lo_ok \<and> hi_ok then
           (if 2 * num < (2 * c + 1) * den \<or> (2 * num = (2 * c + 1) * den \<and> even c)
            then (c, k) else (c + 1, k))
         else if lo_ok then (c, k)
         else if hi_ok then (c + 1, k)
         else shortest_decimal fuel (Suc n) m e p)"

text \<open>
  The layout of \<^verbatim>\<open>repr\<close>: digits \<open>ds\<close> (no trailing zeros) read as \<open>0.ds * 10 ^ decpt\<close>;
  scientific notation when \<open>decpt \<le> - 4\<close> or \<open>decpt > 16\<close>, else positional with at least one
  digit after the point.
\<close>

definition format_repr :: "string \<Rightarrow> int \<Rightarrow> string" where
  "format_repr ds decpt =
     (if decpt \<le> - 4 \<or> 16 < decpt then
        hd ds # (if tl ds = [] then [] else ''.'' @ tl ds) @ ''e''
        @ (if decpt - 1 < 0 then ''-'' else ''+'')
        @ (if \<bar>decpt - 1\<bar> < 10 then ''0'' else [])
        @ digits_str \<bar>decpt - 1\<bar>
      else if decpt \<le> 0 then ''0.'' @ replicate (nat (- decpt)) CHR ''0'' @ ds
      else if int (length ds) \<le> decpt then
        ds @ replicate (nat (decpt - int (length ds))) CHR ''0'' @ ''.0''
      else take (nat decpt) ds @ ''.'' @ drop (nat decpt) ds)"

definition float_repr :: "pyfloat \<Rightarrow> string" where
  "float_repr f =
     (case f of
        NaN \<Rightarrow> ''nan''
      | Infinite s \<Rightarrow> (if s then ''-inf'' else ''inf'')
      | Finite s m e \<Rightarrow>
          (if s then ''-'' else [])
          @ (if m = 0 then ''0.0''
             else
               (let (c, k) = shortest_decimal 17 1 m e (decimal_exponent m e);
                    all_digits = digits_str c
                in format_repr (rev (dropWhile (\<lambda>d. d = CHR ''0'') (rev all_digits)))
                     (int (length all_digits) + k))))"

subsection \<open>\<^verbatim>\<open>repr\<close> and \<^verbatim>\<open>str\<close> of the loaded values\<close>

definition hex2 :: "char \<Rightarrow> string" where
  "hex2 c = [''0123456789abcdef'' ! (of_char c div 16), ''0123456789abcdef'' ! (of_char c mod 16)]"

definition printable :: "char \<Rightarrow> bool" where
  "printable c =
     (let n = (of_char c :: nat)
      in (32 \<le> n \<and> n < 127) \<or> (161 \<le> n \<and> n \<noteq> 173))"

definition repr_char :: "char \<Rightarrow> char \<Rightarrow> string" where
  "repr_char quote c =
     (if c = quote \<or> c = CHR 0x5C then [CHR 0x5C, c]
      else if c = CHR 0x09 then [CHR 0x5C, CHR ''t'']
      else if c = CHR 0x0A then [CHR 0x5C, CHR ''n'']
      else if c = CHR 0x0D then [CHR 0x5C, CHR ''r'']
      else if printable c then [c]
      else [CHR 0x5C, CHR ''x''] @ hex2 c)"

definition str_repr :: "string \<Rightarrow> string" where
  "str_repr s =
     (let quote = (if CHR 0x27 \<in> set s \<and> CHR 0x22 \<notin> set s then CHR 0x22 else CHR 0x27)
      in quote # concat (map (repr_char quote) s) @ [quote])"

fun join_with :: "string \<Rightarrow> string list \<Rightarrow> string" where
  "join_with sep [] = []"
| "join_with sep [x] = x"
| "join_with sep (x # y # ys) = x @ sep @ join_with sep (y # ys)"

fun py_repr :: "yaml \<Rightarrow> string" where
  "py_repr YNone = ''None''"
| "py_repr (YBool b) = (if b then ''True'' else ''False'')"
| "py_repr (YInt i) = int_str i"
| "py_repr (YFloat f) = float_repr f"
| "py_repr (YStr s) = str_repr s"
| "py_repr (YList xs) = ''['' @ join_with '', '' (map py_repr xs) @ '']''"
| "py_repr (YDict kvs) =
     ''{'' @ join_with '', '' (map (\<lambda>(k, v). str_repr k @ '': '' @ py_repr v) kvs) @ ''}''"

text \<open>A replacement field \<^verbatim>\<open>{x}\<close> of an f-string is \<^verbatim>\<open>format(x, "")\<close>, which is \<^verbatim>\<open>str(x)\<close> here.\<close>

definition py_str :: "yaml \<Rightarrow> string" where
  "py_str v = (case v of YStr s \<Rightarrow> s | _ \<Rightarrow> py_repr v)"

subsection \<open>The Python operations the exporter applies to them\<close>

text \<open>\<^verbatim>\<open>d["key"]\<close>: a \<^verbatim>\<open>dict\<close> raises \<^verbatim>\<open>KeyError\<close> on a missing key; no other value takes a string subscript.\<close>

definition getitem :: "yaml \<Rightarrow> string \<Rightarrow> pyerr + yaml" where
  "getitem d key =
     (case d of
        YDict kvs \<Rightarrow> (case map_of kvs key of None \<Rightarrow> Inl (KeyError (YStr key)) | Some v \<Rightarrow> Inr v)
      | _ \<Rightarrow> Inl TypeError)"

text \<open>
  \<^verbatim>\<open>xs[i]\<close> for a constant \<open>i \<ge> 0\<close>: a \<^verbatim>\<open>list\<close> gives its element and a \<^verbatim>\<open>str\<close> its character, both
  raise \<^verbatim>\<open>IndexError\<close> out of range; a \<^verbatim>\<open>dict\<close> (keyed by strings) has no such key; \<^verbatim>\<open>None\<close> and
  numbers are not subscriptable.
\<close>

definition getindex :: "yaml \<Rightarrow> nat \<Rightarrow> pyerr + yaml" where
  "getindex xs i =
     (case xs of
        YList vs \<Rightarrow> if i < length vs then Inr (vs ! i) else Inl IndexError
      | YStr s \<Rightarrow> if i < length s then Inr (YStr [s ! i]) else Inl IndexError
      | YDict kvs \<Rightarrow> Inl (KeyError (YInt (int i)))
      | _ \<Rightarrow> Inl TypeError)"

text \<open>\<^verbatim>\<open>d.get(key, default)\<close>: only a \<^verbatim>\<open>dict\<close> has the method.\<close>

definition dict_get :: "yaml \<Rightarrow> string \<Rightarrow> yaml \<Rightarrow> pyerr + yaml" where
  "dict_get d key dflt =
     (case d of
        YDict kvs \<Rightarrow> (case map_of kvs key of None \<Rightarrow> Inr dflt | Some v \<Rightarrow> Inr v)
      | _ \<Rightarrow> Inl AttributeError)"

text \<open>\<^verbatim>\<open>"key" in x\<close>: key of a \<^verbatim>\<open>dict\<close>, element of a \<^verbatim>\<open>list\<close>, substring of a \<^verbatim>\<open>str\<close>.\<close>

definition py_in :: "string \<Rightarrow> yaml \<Rightarrow> pyerr + bool" where
  "py_in key x =
     (case x of
        YDict kvs \<Rightarrow> Inr (map_of kvs key \<noteq> None)
      | YList vs \<Rightarrow> Inr (YStr key \<in> set vs)
      | YStr s \<Rightarrow> Inr (sublist key s)
      | _ \<Rightarrow> Inl TypeError)"

text \<open>\<^verbatim>\<open>x * 2\<close>: numbers are doubled (\<^verbatim>\<open>bool\<close> counts as 0 or 1), sequences are repeated.\<close>

definition py_mul2 :: "yaml \<Rightarrow> pyerr + yaml" where
  "py_mul2 x =
     (case x of
        YInt i \<Rightarrow> Inr (YInt (i * 2))
      | YBool b \<Rightarrow> Inr (YInt (if b then 2 else 0))
      | YFloat f \<Rightarrow> Inr (YFloat (float_mul2 f))
      | YStr s \<Rightarrow> Inr (YStr (s @ s))
      | YList vs \<Rightarrow> Inr (YList (vs @ vs))
      | _ \<Rightarrow> Inl TypeError)"

text \<open>\<^verbatim>\<open>for segment in x\<close>: the elements of a \<^verbatim>\<open>list\<close>, the keys of a \<^verbatim>\<open>dict\<close>, the characters of a \<^verbatim>\<open>str\<close>.\<close>

definition py_iter :: "yaml \<Rightarrow> pyerr + yaml list" where
  "py_iter x =
     (case x of
        YList vs \<Rightarrow> Inr vs
      | YDict kvs \<Rightarrow> Inr (map (\<lambda>kv. YStr (fst kv)) kvs)
      | YStr s \<Rightarrow> Inr (map (\<lambda>c. YStr [c]) s)
      | _ \<Rightarrow> Inl TypeError)"

text \<open>The literals \<^verbatim>\<open>0.1\<close>, \<^verbatim>\<open>0.5\<close> and \<^verbatim>\<open>1.0\<close> of the source, as doubles.\<close>

definition lit_0_1 :: yaml where
  "lit_0_1 = YFloat (Finite False 7205759403792794 (- 56))"

definition lit_0_5 :: yaml where
  "lit_0_5 = YFloat (Finite False 4503599627370496 (- 53))"

definition lit_1_0 :: yaml where
  "lit_1_0 = YFloat (Finite False 4503599627370496 (- 52))"

section \<open>The exporter\<close>

text \<open>
  \<^verbatim>\<open>class URDFExporter\<close>: \<^verbatim>\<open>__init__\<close> keeps the path and the loaded specification. The methods
  below take the object as \<open>self\<close>, as in the source; a leading underscore of a method name
  is dropped.
\<close>

record URDFExporter =
  yaml_path :: string
  spec :: yaml

subsection \<open>\<^verbatim>\<open>_generate_inertial\<close>\<close>

definition generate_inertial :: "yaml \<Rightarrow> pyerr + string list" where
  \<open>generate_inertial body =
     and_then (getitem body ''mass'') (\<lambda>mass.
     and_then (and_then (getitem body ''inertia'') (\<lambda>i. getitem i ''ixx'')) (\<lambda>ixx.
     and_then (and_then (getitem body ''inertia'') (\<lambda>i. getitem i ''ixy'')) (\<lambda>ixy.
     and_then (and_then (getitem body ''inertia'') (\<lambda>i. getitem i ''ixz'')) (\<lambda>ixz.
     and_then (and_then (getitem body ''inertia'') (\<lambda>i. getitem i ''iyy'')) (\<lambda>iyy.
     and_then (and_then (getitem body ''inertia'') (\<lambda>i. getitem i ''iyz'')) (\<lambda>iyz.
     and_then (and_then (getitem body ''inertia'') (\<lambda>i. getitem i ''izz'')) (\<lambda>izz.
     Inr [''    <inertial>'',
          ''      <mass value="'' @ py_str mass @ ''"/>'',
          ''      <inertia'',
          ''        ixx="'' @ py_str ixx @ ''"'',
          ''        ixy="'' @ py_str ixy @ ''"'',
          ''        ixz="'' @ py_str ixz @ ''"'',
          ''        iyy="'' @ py_str iyy @ ''"'',
          ''        iyz="'' @ py_str iyz @ ''"'',
          ''        izz="'' @ py_str izz @ ''"/>'',
          ''    </inertial>''])))))))\<close>

subsection \<open>\<^verbatim>\<open>_generate_visual\<close>\<close>

text \<open>The \<^verbatim>\<open>if\<close>/\<^verbatim>\<open>elif\<close> chain on \<^verbatim>\<open>geom_type\<close>; a type outside the four adds no geometry lines.\<close>

definition geometry_lines :: "yaml \<Rightarrow> yaml \<Rightarrow> pyerr + string list" where
  \<open>geometry_lines geom geom_type =
     (if geom_type = YStr ''box'' then
        and_then (dict_get geom ''size'' (YList [lit_0_1, lit_0_1, lit_0_1])) (\<lambda>size.
        and_then (getindex size 0) (\<lambda>s0.
        and_then (getindex size 1) (\<lambda>s1.
        and_then (getindex size 2) (\<lambda>s2.
        Inr [''      <geometry>'',
             ''        <box size="'' @ py_str s0 @ '' '' @ py_str s1 @ '' '' @ py_str s2 @ ''"/>'',
             ''      </geometry>'']))))
      else if geom_type = YStr ''sphere'' then
        and_then (dict_get geom ''size'' lit_0_1) (\<lambda>size.
        Inr [''      <geometry>'',
             ''        <sphere radius="'' @ py_str size @ ''"/>'',
             ''      </geometry>''])
      else if geom_type = YStr ''cylinder'' then
        and_then (dict_get geom ''size'' (YList [lit_0_1, lit_0_1])) (\<lambda>size.
        and_then (getindex size 0) (\<lambda>s0.
        and_then (and_then (getindex size 1) py_mul2) (\<lambda>len.
        Inr [''      <geometry>'',
             ''        <cylinder radius="'' @ py_str s0 @ ''" length="'' @ py_str len @ ''"/>'',
             ''      </geometry>''])))
      else if geom_type = YStr ''capsule'' then
        and_then (dict_get geom ''size'' (YList [lit_0_1, lit_0_1])) (\<lambda>size.
        and_then (getindex size 0) (\<lambda>s0.
        and_then (and_then (getindex size 1) py_mul2) (\<lambda>len.
        Inr [''      <geometry>'',
             ''        <cylinder radius="'' @ py_str s0 @ ''" length="'' @ py_str len @ ''"/>'',
             ''      </geometry>''])))
      else Inr [])\<close>

definition generate_visual :: "yaml \<Rightarrow> pyerr + string list" where
  \<open>generate_visual body =
     and_then (dict_get body ''geometry'' (YDict [])) (\<lambda>geom.
     and_then (dict_get geom ''type'' (YStr ''box'')) (\<lambda>geom_type.
     and_then (geometry_lines geom geom_type) (\<lambda>glines.
     and_then (dict_get geom ''visual_rgba'' (YList [lit_0_5, lit_0_5, lit_0_5, lit_1_0])) (\<lambda>rgba.
     and_then (getitem body ''name'') (\<lambda>name.
     and_then (getindex rgba 0) (\<lambda>r0.
     and_then (getindex rgba 1) (\<lambda>r1.
     and_then (getindex rgba 2) (\<lambda>r2.
     and_then (getindex rgba 3) (\<lambda>r3.
     Inr ([''    <visual>''] @ glines @
          [''      <material name="mat_'' @ py_str name @ ''">'',
           ''        <color rgba="'' @ py_str r0 @ '' '' @ py_str r1 @ '' '' @ py_str r2 @ '' ''
             @ py_str r3 @ ''"/>'',
           ''      </material>'',
           ''    </visual>'']))))))))))\<close>

subsection \<open>\<^verbatim>\<open>_generate_segment_urdf\<close>\<close>

definition axis_lines :: "yaml \<Rightarrow> pyerr + string list" where
  \<open>axis_lines segment =
     and_then (and_then (getitem segment ''joint'') (py_in ''axis'')) (\<lambda>has_axis.
     if has_axis then
       and_then (and_then (getitem segment ''joint'') (\<lambda>j. getitem j ''axis'')) (\<lambda>axis.
       and_then (getindex axis 0) (\<lambda>a0.
       and_then (getindex axis 1) (\<lambda>a1.
       and_then (getindex axis 2) (\<lambda>a2.
       Inr [''    <axis xyz="'' @ py_str a0 @ '' '' @ py_str a1 @ '' '' @ py_str a2 @ ''"/>'']))))
     else Inr [])\<close>

text \<open>\<^verbatim>\<open>isinstance(limits, list) and len(limits) == 2\<close>\<close>

definition is_list_of_two :: "yaml \<Rightarrow> bool" where
  "is_list_of_two v = (case v of YList vs \<Rightarrow> length vs = 2 | _ \<Rightarrow> False)"

definition limit_lines :: "yaml \<Rightarrow> pyerr + string list" where
  \<open>limit_lines segment =
     and_then (and_then (getitem segment ''joint'') (py_in ''limits'')) (\<lambda>has_limits.
     if has_limits then
       and_then (and_then (getitem segment ''joint'') (\<lambda>j. getitem j ''limits'')) (\<lambda>limits.
       if is_list_of_two limits then
         and_then (getindex limits 0) (\<lambda>l0.
         and_then (getindex limits 1) (\<lambda>l1.
         Inr [''    <limit lower="'' @ py_str l0 @ ''" upper="'' @ py_str l1 @ ''"/>'']))
       else Inr [])
     else Inr [])\<close>

definition generate_segment_urdf :: "yaml \<Rightarrow> yaml \<Rightarrow> pyerr + string list" where
  \<open>generate_segment_urdf segment parent_name =
     and_then (getitem segment ''name'') (\<lambda>seg_name.
     and_then (and_then (getitem segment ''joint'') (\<lambda>j. getitem j ''type'')) (\<lambda>joint_type.
     and_then (axis_lines segment) (\<lambda>axis_part.
     and_then (limit_lines segment) (\<lambda>limit_part.
     and_then (generate_inertial segment) (\<lambda>inertial.
     and_then (generate_visual segment) (\<lambda>visual.
     Inr ([''  <joint name="'' @ py_str parent_name @ ''_to_'' @ py_str seg_name @ ''" type="''
             @ py_str joint_type @ ''">'',
           ''    <parent link="'' @ py_str parent_name @ ''"/>'',
           ''    <child link="'' @ py_str seg_name @ ''"/>'']
          @ axis_part @ limit_part @
          [''  </joint>'',
           ''  <link name="'' @ py_str seg_name @ ''">'']
          @ inertial @ visual @
          [''  </link>''])))))))\<close>

subsection \<open>\<^verbatim>\<open>_generate_urdf\<close>\<close>

text \<open>
  The \<^verbatim>\<open>for\<close> loop over the segments: each round evaluates \<^verbatim>\<open>root["name"]\<close>, calls
  \<^verbatim>\<open>_generate_segment_urdf\<close> and extends \<^verbatim>\<open>lines\<close>; an exception ends the whole call. The
  loop's \<^verbatim>\<open>root\<close> is its parameter \<open>root_body\<close> (\<open>root\<close> is a constant of the library).
\<close>

fun segments_loop :: "yaml \<Rightarrow> yaml list \<Rightarrow> string list \<Rightarrow> pyerr + string list" where
  "segments_loop root_body [] lines = Inr lines"
| "segments_loop root_body (segment # rest) lines =
     (case and_then (getitem root_body ''name'') (generate_segment_urdf segment) of
        Inl e \<Rightarrow> Inl e
      | Inr seg_lines \<Rightarrow> segments_loop root_body rest (lines @ seg_lines))"

text \<open>\<^verbatim>\<open>self.spec.get("segments", [])\<close>, as the \<^verbatim>\<open>for\<close> statement iterates it.\<close>

definition spec_segments :: "URDFExporter \<Rightarrow> pyerr + yaml list" where
  "spec_segments self = and_then (dict_get (spec self) ''segments'' (YList [])) py_iter"

definition generate_urdf_lines :: "URDFExporter \<Rightarrow> pyerr + string list" where
  \<open>generate_urdf_lines self =
     and_then (getitem (spec self) ''root'') (\<lambda>root.
     and_then (getitem root ''name'') (\<lambda>root_name.
     and_then (generate_inertial root) (\<lambda>inertial.
     and_then (generate_visual root) (\<lambda>visual.
     and_then (spec_segments self) (\<lambda>segments.
     and_then (segments_loop root segments
                ([''<?xml version="1.0"?>'', ''<robot name="golfer">'',
                  ''  <!-- Generated from canonical YAML specification -->'',
                  ''  <link name="'' @ py_str root_name @ ''">'']
                 @ inertial @ visual @ [''  </link>''])) (\<lambda>lines.
     Inr (lines @ [''</robot>''])))))))\<close>

text \<open>\<^verbatim>\<open>"\n".join(lines)\<close>\<close>

definition generate_urdf :: "URDFExporter \<Rightarrow> pyerr + string" where
  "generate_urdf self =
     and_then (generate_urdf_lines self) (\<lambda>lines. Inr (join_with [CHR 0x0A] lines))"

subsection \<open>\<^verbatim>\<open>export\<close>\<close>




section \<open>Example specifications\<close>

text \<open>
  The example of the specification's testable properties: root \<^verbatim>\<open>base\<close> of mass 5, one segment
  \<^verbatim>\<open>arm\<close> on a revolute joint with axis \<^verbatim>\<open>[0, 0, 1]\<close>, all inertia entries zero.
\<close>

definition zero_inertia :: yaml where
  "zero_inertia =
     YDict [(''ixx'', YInt 0), (''ixy'', YInt 0), (''ixz'', YInt 0),
            (''iyy'', YInt 0), (''iyz'', YInt 0), (''izz'', YInt 0)]"

definition base_body :: yaml where
  "base_body = YDict [(''name'', YStr ''base''), (''mass'', YInt 5), (''inertia'', zero_inertia)]"

definition arm_segment :: yaml where
  "arm_segment =
     YDict [(''name'', YStr ''arm''), (''parent'', YStr ''base''),
            (''joint'', YDict [(''type'', YStr ''revolute''), (''axis'', YList [YInt 0, YInt 0, YInt 1])]),
            (''mass'', YInt 1), (''inertia'', zero_inertia)]"

definition golfer_example :: URDFExporter where
  "golfer_example =
     \<lparr>yaml_path = ''golfer.yaml'',
      spec = YDict [(''root'', base_body), (''segments'', YList [arm_segment])]\<rparr>"

definition golfer_example_lines :: "string list" where
  \<open>golfer_example_lines =
     [''<?xml version="1.0"?>'',
      ''<robot name="golfer">'',
      ''  <!-- Generated from canonical YAML specification -->'',
      ''  <link name="base">'',
      ''    <inertial>'',
      ''      <mass value="5"/>'',
      ''      <inertia'',
      ''        ixx="0"'',
      ''        ixy="0"'',
      ''        ixz="0"'',
      ''        iyy="0"'',
      ''        iyz="0"'',
      ''        izz="0"/>'',
      ''    </inertial>'',
      ''    <visual>'',
      ''      <geometry>'',
      ''        <box size="0.1 0.1 0.1"/>'',
      ''      </geometry>'',
      ''      <material name="mat_base">'',
      ''        <color rgba="0.5 0.5 0.5 1.0"/>'',
      ''      </material>'',
      ''    </visual>'',
      ''  </link>'',
      ''  <joint name="base_to_arm" type="revolute">'',
      ''    <parent link="base"/>'',
      ''    <child link="arm"/>'',
      ''    <axis xyz="0 0 1"/>'',
      ''  </joint>'',
      ''  <link name="arm">'',
      ''    <inertial>'',
      ''      <mass value="1"/>'',
      ''      <inertia'',
      ''        ixx="0"'',
      ''        ixy="0"'',
      ''        ixz="0"'',
      ''        iyy="0"'',
      ''        iyz="0"'',
      ''        izz="0"/>'',
      ''    </inertial>'',
      ''    <visual>'',
      ''      <geometry>'',
      ''        <box size="0.1 0.1 0.1"/>'',
      ''      </geometry>'',
      ''      <material name="mat_arm">'',
      ''        <color rgba="0.5 0.5 0.5 1.0"/>'',
      ''      </material>'',
      ''    </visual>'',
      ''  </link>'',
      ''</robot>'']\<close>

text \<open>A chain of three bodies: \<^verbatim>\<open>hand\<close> declares \<^verbatim>\<open>arm\<close>, an earlier segment, as its parent.\<close>

definition hand_segment :: yaml where
  "hand_segment =
     YDict [(''name'', YStr ''hand''), (''parent'', YStr ''arm''),
            (''joint'', YDict [(''type'', YStr ''fixed'')]),
            (''mass'', YInt 1), (''inertia'', zero_inertia)]"

definition chain_example :: URDFExporter where
  "chain_example =
     \<lparr>yaml_path = ''chain.yaml'',
      spec = YDict [(''root'', base_body), (''segments'', YList [arm_segment, hand_segment])]\<rparr>"

definition hand_block :: "string list" where
  \<open>hand_block =
     [''  <joint name="base_to_hand" type="fixed">'',
      ''    <parent link="base"/>'',
      ''    <child link="hand"/>'',
      ''  </joint>'',
      ''  <link name="hand">'',
      ''    <inertial>'',
      ''      <mass value="1"/>'',
      ''      <inertia'',
      ''        ixx="0"'',
      ''        ixy="0"'',
      ''        ixz="0"'',
      ''        iyy="0"'',
      ''        iyz="0"'',
      ''        izz="0"/>'',
      ''    </inertial>'',
      ''    <visual>'',
      ''      <geometry>'',
      ''        <box size="0.1 0.1 0.1"/>'',
      ''      </geometry>'',
      ''      <material name="mat_hand">'',
      ''        <color rgba="0.5 0.5 0.5 1.0"/>'',
      ''      </material>'',
      ''    </visual>'',
      ''  </link>'']\<close>

definition chain_example_lines :: "string list" where
  "chain_example_lines = butlast golfer_example_lines @ hand_block @ [''</robot>'']"

text \<open>A root whose name holds the five reserved markup characters.\<close>

definition reserved_name :: string where
  \<open>reserved_name = ''R&D <"rig'' @ [CHR 0x27] @ ''s">''\<close>

definition reserved_example :: URDFExporter where
  "reserved_example =
     \<lparr>yaml_path = ''reserved.yaml'',
      spec = YDict [(''root'', YDict [(''name'', YStr reserved_name), (''mass'', YInt 5),
                                     (''inertia'', zero_inertia)])]\<rparr>"




section \<open>What the specification asks of names and parents\<close>

text \<open>
  Escaping of the five reserved markup characters, in the specification's words (the exporter
  has no such function).
\<close>

definition xml_reserved :: "char set" where
  "xml_reserved = {CHR ''&'', CHR ''<'', CHR ''>'', CHR 0x22, CHR 0x27}"

definition xml_escape_char :: "char \<Rightarrow> string" where
  "xml_escape_char c =
     (if c = CHR ''&'' then ''&amp;''
      else if c = CHR ''<'' then ''&lt;''
      else if c = CHR ''>'' then ''&gt;''
      else if c = CHR 0x22 then ''&quot;''
      else if c = CHR 0x27 then ''&apos;''
      else [c])"

definition xml_escape :: "string \<Rightarrow> string" where
  "xml_escape s = concat (map xml_escape_char s)"


section \<open>Further example bodies and segments\<close>



text \<open>The ten lines \<^verbatim>\<open>_generate_inertial\<close> returns, for the seven values it has read.\<close>

definition inertial_block :: "yaml \<Rightarrow> yaml \<Rightarrow> yaml \<Rightarrow> yaml \<Rightarrow> yaml \<Rightarrow> yaml \<Rightarrow> yaml \<Rightarrow> string list" where
  \<open>inertial_block mass ixx ixy ixz iyy iyz izz =
     [''    <inertial>'',
      ''      <mass value="'' @ py_str mass @ ''"/>'',
      ''      <inertia'',
      ''        ixx="'' @ py_str ixx @ ''"'',
      ''        ixy="'' @ py_str ixy @ ''"'',
      ''        ixz="'' @ py_str ixz @ ''"'',
      ''        iyy="'' @ py_str iyy @ ''"'',
      ''        iyz="'' @ py_str iyz @ ''"'',
      ''        izz="'' @ py_str izz @ ''"/>'',
      ''    </inertial>'']\<close>



text \<open>A body with a sphere and no colour.\<close>

definition sphere_body :: yaml where
  "sphere_body =
     YDict [(''name'', YStr ''ball''), (''mass'', YInt 1), (''inertia'', zero_inertia),
            (''geometry'', YDict [(''type'', YStr ''sphere''), (''size'', YInt 2)])]"

definition sphere_visual_lines :: "string list" where
  \<open>sphere_visual_lines =
     [''    <visual>'',
      ''      <geometry>'',
      ''        <sphere radius="2"/>'',
      ''      </geometry>'',
      ''      <material name="mat_ball">'',
      ''        <color rgba="0.5 0.5 0.5 1.0"/>'',
      ''      </material>'',
      ''    </visual>'']\<close>

text \<open>A segment whose joint has an axis and limits given as a pair.\<close>

definition elbow_segment :: yaml where
  "elbow_segment =
     YDict [(''name'', YStr ''forearm''),
            (''joint'', YDict [(''type'', YStr ''revolute''), (''axis'', YList [YInt 0, YInt 1, YInt 0]),
                               (''limits'', YList [YInt (- 1), YInt 2])]),
            (''mass'', YInt 1), (''inertia'', zero_inertia)]"

text \<open>A segment whose joint has no axis and limits given as a list of three.\<close>

definition loose_segment :: yaml where
  "loose_segment =
     YDict [(''name'', YStr ''wrist''),
            (''joint'', YDict [(''type'', YStr ''fixed''), (''limits'', YList [YInt 0, YInt 1, YInt 2])]),
            (''mass'', YInt 1), (''inertia'', zero_inertia)]"

section \<open>Auxiliary facts\<close>

lemma and_then_Inr [simp]: "and_then (Inr v) f = f v"
  by (simp add: and_then_def)

lemma and_then_Inl [simp]: "and_then (Inl e) f = Inl e"
  by (simp add: and_then_def)

lemma and_then_eq_Inr: "and_then r f = Inr y \<longleftrightarrow> (\<exists>v. r = Inr v \<and> f v = Inr y)"
  by (cases r) simp_all

text \<open>The loop succeeds exactly when every segment does, and appends their lines in order.\<close>

lemma segments_loop_blocks:
  "segments_loop root_body segs acc = Inr out \<longleftrightarrow>
     (\<exists>blocks. list_all2 (\<lambda>seg b. and_then (getitem root_body ''name'') (generate_segment_urdf seg) = Inr b) segs blocks
        \<and> out = acc @ concat blocks)"
proof (induction segs arbitrary: acc)
  case Nil
  show ?case by auto
next
  case (Cons seg rest)
  show ?case
  proof (cases "and_then (getitem root_body ''name'') (generate_segment_urdf seg)")
    case (Inl e)
    then show ?thesis by (auto simp: list_all2_Cons1)
  next
    case (Inr b)
    then show ?thesis
      by (simp add: Cons.IH list_all2_Cons1) (metis append.assoc concat.simps(2))
  qed
qed

lemma generate_urdf_lines_shape:
  assumes "generate_urdf_lines self = Inr ls"
  shows \<open>\<exists>root root_name inertial visual segments blocks.
           getitem (spec self) ''root'' = Inr root \<and>
           getitem root ''name'' = Inr root_name \<and>
           generate_inertial root = Inr inertial \<and>
           generate_visual root = Inr visual \<and>
           spec_segments self = Inr segments \<and>
           list_all2 (\<lambda>seg b. generate_segment_urdf seg root_name = Inr b) segments blocks \<and>
           ls = [''<?xml version="1.0"?>'', ''<robot name="golfer">'',
                 ''  <!-- Generated from canonical YAML specification -->'',
                 ''  <link name="'' @ py_str root_name @ ''">'']
                @ inertial @ visual @ [''  </link>''] @ concat blocks @ [''</robot>'']\<close>
  using assms unfolding generate_urdf_lines_def
  by (auto simp: and_then_eq_Inr segments_loop_blocks)

lemma generate_segment_urdf_shape:
  assumes "generate_segment_urdf segment parent_name = Inr b"
  shows \<open>\<exists>seg_name joint joint_type axis_part limit_part inertial visual.
           getitem segment ''name'' = Inr seg_name \<and>
           getitem segment ''joint'' = Inr joint \<and>
           getitem joint ''type'' = Inr joint_type \<and>
           axis_lines segment = Inr axis_part \<and>
           limit_lines segment = Inr limit_part \<and>
           generate_inertial segment = Inr inertial \<and>
           generate_visual segment = Inr visual \<and>
           b = [''  <joint name="'' @ py_str parent_name @ ''_to_'' @ py_str seg_name @ ''" type="''
                  @ py_str joint_type @ ''">'',
                ''    <parent link="'' @ py_str parent_name @ ''"/>'',
                ''    <child link="'' @ py_str seg_name @ ''"/>'']
               @ axis_part @ limit_part @
               [''  </joint>'', ''  <link name="'' @ py_str seg_name @ ''">'']
               @ inertial @ visual @ [''  </link>'']\<close>
  using assms unfolding generate_segment_urdf_def
  by (auto simp: and_then_eq_Inr)

lemma golfer_example_generated: "generate_urdf_lines golfer_example = Inr golfer_example_lines"
  by code_simp

lemma chain_example_generated: "generate_urdf_lines chain_example = Inr chain_example_lines"
  by code_simp

section \<open>C1: traversal order and parent links\<close>

text \<open>
  C1, as amended. Whenever generation succeeds, the document is the three header lines, the
  root's link element, then the block of every segment in the order of the segment list, then
  the closing line; and the joint of every segment names the root body as its parent link,
  whatever parent the segment declares.
\<close>

theorem segments_attached_to_root:
  assumes "generate_urdf_lines self = Inr ls"
  shows \<open>\<exists>root root_name root_link segments blocks.
           getitem (spec self) ''root'' = Inr root \<and>
           getitem root ''name'' = Inr root_name \<and>
           spec_segments self = Inr segments \<and>
           ls = [''<?xml version="1.0"?>'', ''<robot name="golfer">'',
                 ''  <!-- Generated from canonical YAML specification -->'']
                @ root_link @ concat blocks @ [''</robot>''] \<and>
           hd root_link = ''  <link name="'' @ py_str root_name @ ''">'' \<and>
           last root_link = ''  </link>'' \<and>
           list_all2
             (\<lambda>segment block.
                generate_segment_urdf segment root_name = Inr block \<and>
                block ! 1 = ''    <parent link="'' @ py_str root_name @ ''"/>'')
             segments blocks\<close>
proof -
  from generate_urdf_lines_shape [OF assms]
  obtain root root_name inertial visual segments blocks where
    r: "getitem (spec self) ''root'' = Inr root" "getitem root ''name'' = Inr root_name"
       "spec_segments self = Inr segments"
    and b: "list_all2 (\<lambda>seg b. generate_segment_urdf seg root_name = Inr b) segments blocks"
    and ls: \<open>ls = [''<?xml version="1.0"?>'', ''<robot name="golfer">'',
                 ''  <!-- Generated from canonical YAML specification -->'',
                 ''  <link name="'' @ py_str root_name @ ''">'']
                @ inertial @ visual @ [''  </link>''] @ concat blocks @ [''</robot>'']\<close>
    by blast
  let ?root_link =
    \<open>[''  <link name="'' @ py_str root_name @ ''">''] @ inertial @ visual @ [''  </link>'']\<close>
  have parent: \<open>block ! 1 = ''    <parent link="'' @ py_str root_name @ ''"/>''\<close>
    if "generate_segment_urdf segment root_name = Inr block" for segment block
    using generate_segment_urdf_shape [OF that] by auto
  have \<open>list_all2
          (\<lambda>segment block.
             generate_segment_urdf segment root_name = Inr block \<and>
             block ! 1 = ''    <parent link="'' @ py_str root_name @ ''"/>'')
          segments blocks\<close>
    using b parent by (auto elim!: list_all2_mono)
  moreover have \<open>ls = [''<?xml version="1.0"?>'', ''<robot name="golfer">'',
                 ''  <!-- Generated from canonical YAML specification -->'']
                @ ?root_link @ concat blocks @ [''</robot>'']\<close>
    using ls by simp
  moreover have \<open>hd ?root_link = ''  <link name="'' @ py_str root_name @ ''">''\<close> by simp
  moreover have "last ?root_link = ''  </link>''" by simp
  ultimately show ?thesis using r by blast
qed

theorem segments_attached_to_root_witness:
  \<open>\<exists>root root_name root_link segments blocks.
           getitem (spec chain_example) ''root'' = Inr root \<and>
           getitem root ''name'' = Inr root_name \<and>
           spec_segments chain_example = Inr segments \<and>
           chain_example_lines = [''<?xml version="1.0"?>'', ''<robot name="golfer">'',
                 ''  <!-- Generated from canonical YAML specification -->'']
                @ root_link @ concat blocks @ [''</robot>''] \<and>
           hd root_link = ''  <link name="'' @ py_str root_name @ ''">'' \<and>
           last root_link = ''  </link>'' \<and>
           list_all2
             (\<lambda>segment block.
                generate_segment_urdf segment root_name = Inr block \<and>
                block ! 1 = ''    <parent link="'' @ py_str root_name @ ''"/>'')
             segments blocks\<close>
  using segments_attached_to_root [OF chain_example_generated] .

text \<open>
  The claim as stated fails on the chain \<^verbatim>\<open>base\<close>, \<^verbatim>\<open>arm\<close>, \<^verbatim>\<open>hand\<close>: the segment \<^verbatim>\<open>hand\<close> declares
  \<^verbatim>\<open>arm\<close> as its parent, and its joint element names \<^verbatim>\<open>base\<close>.
\<close>

theorem declared_parent_counterexample:
  \<open>generate_urdf_lines chain_example = Inr chain_example_lines \<and>
   getitem (spec chain_example) ''segments'' = Inr (YList [arm_segment, hand_segment]) \<and>
   getitem hand_segment ''parent'' = Inr (YStr ''arm'') \<and>
   chain_example_lines ! 48 = ''  <joint name="base_to_hand" type="fixed">'' \<and>
   chain_example_lines ! 49 = ''    <parent link="base"/>'' \<and>
   chain_example_lines ! 50 = ''    <child link="hand"/>''\<close>
  by code_simp

lemma xml_escape_legal: "set s \<inter> xml_reserved = {} \<Longrightarrow> xml_escape s = s"
  by (induction s) (auto simp: xml_escape_def xml_escape_char_def xml_reserved_def)

lemma generate_visual_material:
  assumes "generate_visual body = Inr v" and "getitem body ''name'' = Inr n"
  shows \<open>''      <material name="mat_'' @ py_str n @ ''">'' \<in> set v\<close>
  using assms unfolding generate_visual_def
  by (auto simp: and_then_eq_Inr)

lemma list_all2_in_set1:
  assumes "list_all2 P xs ys" and "x \<in> set xs"
  shows "\<exists>y \<in> set ys. P x y"
  using assms by (induction rule: list_all2_induct) auto

section \<open>C2: names in attribute values\<close>

text \<open>
  C2, as amended. Names are placed in attribute values as they are, with no escaping: the
  name of the root in its link and material elements, the name of every segment in its joint,
  child, link and material elements. A name without any of the five reserved characters
  is therefore also what escaping would give, byte for byte.
\<close>

theorem names_embedded_verbatim:
  assumes "generate_urdf_lines self = Inr ls"
    and "getitem (spec self) ''root'' = Inr root_body"
    and "getitem root_body ''name'' = Inr (YStr r)"
    and "spec_segments self = Inr segments"
  shows \<open>ls ! 3 = ''  <link name="'' @ r @ ''">'' \<and>
         ''      <material name="mat_'' @ r @ ''">'' \<in> set ls \<and>
         (\<forall>segment \<in> set segments. \<forall>s. getitem segment ''name'' = Inr (YStr s) \<longrightarrow>
            (\<exists>l \<in> set ls. prefix (''  <joint name="'' @ r @ ''_to_'' @ s @ ''" type="'') l) \<and>
            ''    <child link="'' @ s @ ''"/>'' \<in> set ls \<and>
            ''  <link name="'' @ s @ ''">'' \<in> set ls \<and>
            ''      <material name="mat_'' @ s @ ''">'' \<in> set ls) \<and>
         (set r \<inter> xml_reserved = {} \<longrightarrow> ls ! 3 = ''  <link name="'' @ xml_escape r @ ''">'')\<close>
proof -
  from generate_urdf_lines_shape [OF assms(1)] assms(2,3,4)
  obtain inertial visual blocks where
    vis: "generate_visual root_body = Inr visual"
    and b: "list_all2 (\<lambda>seg b. generate_segment_urdf seg (YStr r) = Inr b) segments blocks"
    and ls: \<open>ls = [''<?xml version="1.0"?>'', ''<robot name="golfer">'',
                 ''  <!-- Generated from canonical YAML specification -->'',
                 ''  <link name="'' @ py_str (YStr r) @ ''">'']
                @ inertial @ visual @ [''  </link>''] @ concat blocks @ [''</robot>'']\<close>
    by auto
  have l3: \<open>ls ! 3 = ''  <link name="'' @ r @ ''">''\<close>
    using ls by (simp add: py_str_def)
  have mat: \<open>''      <material name="mat_'' @ r @ ''">'' \<in> set ls\<close>
    using generate_visual_material [OF vis assms(3)] ls by (simp add: py_str_def)
  have seg: \<open>(\<exists>l \<in> set ls. prefix (''  <joint name="'' @ r @ ''_to_'' @ s @ ''" type="'') l) \<and>
            ''    <child link="'' @ s @ ''"/>'' \<in> set ls \<and>
            ''  <link name="'' @ s @ ''">'' \<in> set ls \<and>
            ''      <material name="mat_'' @ s @ ''">'' \<in> set ls\<close>
    if "segment \<in> set segments" and "getitem segment ''name'' = Inr (YStr s)" for segment s
  proof -
    from list_all2_in_set1 [OF b that(1)] obtain block where
      blk: "block \<in> set blocks" "generate_segment_urdf segment (YStr r) = Inr block" by blast
    from generate_segment_urdf_shape [OF blk(2)] that(2)
    obtain joint_type axis_part limit_part inertial' visual' where
      v: "generate_visual segment = Inr visual'"
      and block: \<open>block = [''  <joint name="'' @ r @ ''_to_'' @ s @ ''" type="''
                  @ py_str joint_type @ ''">'',
                ''    <parent link="'' @ r @ ''"/>'',
                ''    <child link="'' @ s @ ''"/>'']
               @ axis_part @ limit_part @
               [''  </joint>'', ''  <link name="'' @ s @ ''">'']
               @ inertial' @ visual' @ [''  </link>'']\<close>
      by (auto simp: py_str_def)
    have sub: "set block \<subseteq> set ls" using blk(1) ls by auto
    have m: \<open>''      <material name="mat_'' @ s @ ''">'' \<in> set visual'\<close>
      using generate_visual_material [OF v that(2)] by (simp add: py_str_def)
    have j: \<open>prefix (''  <joint name="'' @ r @ ''_to_'' @ s @ ''" type="'') (block ! 0)\<close>
      by (simp add: block prefix_def)
    have j0: "block ! 0 \<in> set block" by (simp add: block)
    have c: \<open>''    <child link="'' @ s @ ''"/>'' \<in> set block\<close> by (simp add: block)
    have k: \<open>''  <link name="'' @ s @ ''">'' \<in> set block\<close> by (simp add: block)
    have m': \<open>''      <material name="mat_'' @ s @ ''">'' \<in> set block\<close>
      using m by (simp add: block)
    show ?thesis using sub j j0 c k m' by blast
  qed
  show ?thesis using l3 mat seg by (auto simp: xml_escape_legal)
qed

theorem names_embedded_verbatim_witness:
  \<open>golfer_example_lines ! 3 = ''  <link name="'' @ ''base'' @ ''">'' \<and>
   ''      <material name="mat_'' @ ''base'' @ ''">'' \<in> set golfer_example_lines \<and>
   prefix (''  <joint name="'' @ ''base'' @ ''_to_'' @ ''arm'' @ ''" type="'') (golfer_example_lines ! 23) \<and>
   ''    <child link="'' @ ''arm'' @ ''"/>'' \<in> set golfer_example_lines \<and>
   ''  <link name="'' @ ''arm'' @ ''">'' \<in> set golfer_example_lines \<and>
   ''      <material name="mat_'' @ ''arm'' @ ''">'' \<in> set golfer_example_lines \<and>
   golfer_example_lines ! 3 = ''  <link name="'' @ xml_escape ''base'' @ ''">''\<close>
proof -
  have root: "getitem (spec golfer_example) ''root'' = Inr base_body" by code_simp
  have name: "getitem base_body ''name'' = Inr (YStr ''base'')" by code_simp
  have segments: "spec_segments golfer_example = Inr [arm_segment]" by code_simp
  have arm: "arm_segment \<in> set [arm_segment]" by simp
  have arm_name: "getitem arm_segment ''name'' = Inr (YStr ''arm'')" by code_simp
  have legal: "set ''base'' \<inter> xml_reserved = {}" by (simp add: xml_reserved_def)
  have joint: \<open>prefix (''  <joint name="'' @ ''base'' @ ''_to_'' @ ''arm'' @ ''" type="'')
                 (golfer_example_lines ! 23)\<close>
    by code_simp
  show ?thesis
    using names_embedded_verbatim [OF golfer_example_generated root name segments]
      arm arm_name legal joint
    by blast
qed

text \<open>
  The claim as stated fails on a root name that holds the five reserved characters: they
  reach the attribute value as they are.
\<close>

theorem names_not_escaped_counterexample:
  \<open>\<not> isl (generate_urdf_lines reserved_example) \<and>
   getitem (spec reserved_example) ''root''
     = Inr (YDict [(''name'', YStr reserved_name), (''mass'', YInt 5), (''inertia'', zero_inertia)]) \<and>
   projr (generate_urdf_lines reserved_example) ! 3 = ''  <link name="'' @ reserved_name @ ''">'' \<and>
   xml_escape reserved_name = ''R&amp;D &lt;&quot;rig&apos;s&quot;&gt;'' \<and>
   projr (generate_urdf_lines reserved_example) ! 3 \<noteq> ''  <link name="'' @ xml_escape reserved_name @ ''">''\<close>
  by code_simp










section \<open>C3: segments with an unknown parent\<close>





section \<open>C9: exporting twice\<close>



lemma join_with_two_more:
  "join_with sep (a # b # c # rest) = a @ sep @ b @ sep @ join_with sep (c # rest)"
  by simp

section \<open>C10: the name of the robot element\<close>

text \<open>
  C10, as amended. Whenever generation succeeds, the document begins with the XML declaration
  and the line \<^verbatim>\<open><robot name="golfer">\<close>, whatever the specification holds. The name of the root
  body is written into its link element and, for every segment, into the name of that
  segment's joint element (and into its parent link, see C1); it never reaches the robot
  element.
\<close>

theorem robot_wrapper_named_golfer:
  assumes "generate_urdf self = Inr doc"
  shows \<open>prefix (''<?xml version="1.0"?>'' @ [CHR 0x0A] @ ''<robot name="golfer">'' @ [CHR 0x0A]) doc \<and>
         (\<exists>ls root root_name segments blocks.
            generate_urdf_lines self = Inr ls \<and>
            doc = join_with [CHR 0x0A] ls \<and>
            ls ! 1 = ''<robot name="golfer">'' \<and>
            getitem (spec self) ''root'' = Inr root \<and>
            getitem root ''name'' = Inr root_name \<and>
            ls ! 3 = ''  <link name="'' @ py_str root_name @ ''">'' \<and>
            spec_segments self = Inr segments \<and>
            suffix (concat blocks @ [''</robot>'']) ls \<and>
            list_all2
              (\<lambda>segment block.
                 generate_segment_urdf segment root_name = Inr block \<and>
                 prefix (''  <joint name="'' @ py_str root_name @ ''_to_'') (block ! 0))
              segments blocks)\<close>
proof -
  from assms obtain ls where
    g: "generate_urdf_lines self = Inr ls" and doc: "doc = join_with [CHR 0x0A] ls"
    by (auto simp: generate_urdf_def and_then_eq_Inr)
  from generate_urdf_lines_shape [OF g]
  obtain root root_name inertial visual segments blocks where
    r: "getitem (spec self) ''root'' = Inr root" "getitem root ''name'' = Inr root_name"
       "spec_segments self = Inr segments"
    and b: "list_all2 (\<lambda>seg b. generate_segment_urdf seg root_name = Inr b) segments blocks"
    and ls: \<open>ls = [''<?xml version="1.0"?>'', ''<robot name="golfer">'',
                 ''  <!-- Generated from canonical YAML specification -->'',
                 ''  <link name="'' @ py_str root_name @ ''">'']
                @ inertial @ visual @ [''  </link>''] @ concat blocks @ [''</robot>'']\<close>
    by blast
  have joint: \<open>prefix (''  <joint name="'' @ py_str root_name @ ''_to_'') (block ! 0)\<close>
    if "generate_segment_urdf segment root_name = Inr block" for segment block
    using generate_segment_urdf_shape [OF that] by (auto simp: prefix_def)
  have blocks: \<open>list_all2
              (\<lambda>segment block.
                 generate_segment_urdf segment root_name = Inr block \<and>
                 prefix (''  <joint name="'' @ py_str root_name @ ''_to_'') (block ! 0))
              segments blocks\<close>
    using b joint by (auto elim!: list_all2_mono)
  have l1: \<open>ls ! 1 = ''<robot name="golfer">''\<close> using ls by simp
  have l3: \<open>ls ! 3 = ''  <link name="'' @ py_str root_name @ ''">''\<close> using ls by simp
  have suf: "suffix (concat blocks @ [''</robot>'']) ls"
    unfolding suffix_def using ls by (metis append.assoc)
  have pre: \<open>prefix (''<?xml version="1.0"?>'' @ [CHR 0x0A] @ ''<robot name="golfer">'' @ [CHR 0x0A]) doc\<close>
    unfolding doc ls prefix_def by (simp del: join_with.simps add: join_with_two_more)
  show ?thesis using pre g doc l1 l3 r suf blocks by blast
qed

theorem robot_wrapper_named_golfer_witness:
  \<open>prefix (''<?xml version="1.0"?>'' @ [CHR 0x0A] @ ''<robot name="golfer">'' @ [CHR 0x0A])
      (join_with [CHR 0x0A] golfer_example_lines) \<and>
         (\<exists>ls root root_name segments blocks.
            generate_urdf_lines golfer_example = Inr ls \<and>
            join_with [CHR 0x0A] golfer_example_lines = join_with [CHR 0x0A] ls \<and>
            ls ! 1 = ''<robot name="golfer">'' \<and>
            getitem (spec golfer_example) ''root'' = Inr root \<and>
            getitem root ''name'' = Inr root_name \<and>
            ls ! 3 = ''  <link name="'' @ py_str root_name @ ''">'' \<and>
            spec_segments golfer_example = Inr segments \<and>
            suffix (concat blocks @ [''</robot>'']) ls \<and>
            list_all2
              (\<lambda>segment block.
                 generate_segment_urdf segment root_name = Inr block \<and>
                 prefix (''  <joint name="'' @ py_str root_name @ ''_to_'') (block ! 0))
              segments blocks)\<close>
proof -
  have g: "generate_urdf golfer_example = Inr (join_with [CHR 0x0A] golfer_example_lines)"
    by (simp add: generate_urdf_def golfer_example_generated)
  show ?thesis using robot_wrapper_named_golfer [OF g] .
qed

text \<open>
  The claim as stated fails on the example of the specification: the link element of the
  root \<^verbatim>\<open>base\<close> ends at line 22, and lines 23 and 24, in the joint of \<^verbatim>\<open>arm\<close>, hold its name.
\<close>

theorem root_name_in_joint_counterexample:
  \<open>generate_urdf_lines golfer_example = Inr golfer_example_lines \<and>
   getitem (spec golfer_example) ''root'' = Inr base_body \<and>
   getitem base_body ''name'' = Inr (YStr ''base'') \<and>
   golfer_example_lines ! 1 = ''<robot name="golfer">'' \<and>
   golfer_example_lines ! 3 = ''  <link name="base">'' \<and>
   golfer_example_lines ! 22 = ''  </link>'' \<and>
   golfer_example_lines ! 23 = ''  <joint name="base_to_arm" type="revolute">'' \<and>
   golfer_example_lines ! 24 = ''    <parent link="base"/>''\<close>
  by code_simp




section \<open>C4: non-finite mass and inertia\<close>




section \<open>C8: the inertial block\<close>






lemma float_mul2_is_double: "is_double f \<Longrightarrow> is_double (float_mul2 f)"
  by (cases f) (auto simp: is_double_def float_mul2_def)




section \<open>C5: cylinders and capsules\<close>



lemma py_str_lit_0_1: "py_str lit_0_1 = ''0.1''"
  by code_simp

lemma py_str_lit_0_5: "py_str lit_0_5 = ''0.5''"
  by code_simp

lemma py_str_lit_1_0: "py_str lit_1_0 = ''1.0''"
  by code_simp

lemma getindex_list [simp]:
  "i < length vs \<Longrightarrow> getindex (YList vs) i = Inr (vs ! i)"
  by (simp add: getindex_def)

lemma default_color_line:
  assumes "generate_visual body = Inr ls"
    and "dict_get body ''geometry'' (YDict []) = Inr (YDict g)"
    and "map_of g ''visual_rgba'' = None"
  shows \<open>3 \<le> length ls \<and> ls ! (length ls - 3) = ''        <color rgba="0.5 0.5 0.5 1.0"/>''\<close>
proof -
  have rgba: "dict_get (YDict g) ''visual_rgba'' (YList [lit_0_5, lit_0_5, lit_0_5, lit_1_0])
                = Inr (YList [lit_0_5, lit_0_5, lit_0_5, lit_1_0])"
    using assms(3) by (simp add: dict_get_def)
  from assms(1) obtain front name where
    \<open>ls = front @ [''      <material name="mat_'' @ py_str name @ ''">'',
                   ''        <color rgba="0.5 0.5 0.5 1.0"/>'',
                   ''      </material>'',
                   ''    </visual>'']\<close>
    unfolding generate_visual_def
    by (auto simp: and_then_eq_Inr assms(2) rgba py_str_lit_0_5 py_str_lit_1_0)
  then show ?thesis by (simp add: nth_append)
qed

section \<open>C7: default geometry and colour\<close>

text \<open>
  C7. A body with a name and no \<^verbatim>\<open>geometry\<close> entry gets the visual block with a box of size
  \<^verbatim>\<open>0.1 0.1 0.1\<close> and the colour \<^verbatim>\<open>0.5 0.5 0.5 1.0\<close>; and whenever a body's geometry, declared or
  not, has no \<^verbatim>\<open>visual_rgba\<close> entry, the colour line of its visual block (the third line from
  the end) is \<^verbatim>\<open>0.5 0.5 0.5 1.0\<close>.
\<close>

theorem default_box_and_color:
  \<open>(map_of kvs ''geometry'' = None \<and> map_of kvs ''name'' = Some name \<longrightarrow>
      generate_visual (YDict kvs) =
        Inr [''    <visual>'',
             ''      <geometry>'',
             ''        <box size="0.1 0.1 0.1"/>'',
             ''      </geometry>'',
             ''      <material name="mat_'' @ py_str name @ ''">'',
             ''        <color rgba="0.5 0.5 0.5 1.0"/>'',
             ''      </material>'',
             ''    </visual>'']) \<and>
   (generate_visual body = Inr ls \<and>
    dict_get body ''geometry'' (YDict []) = Inr (YDict g) \<and>
    map_of g ''visual_rgba'' = None \<longrightarrow>
      3 \<le> length ls \<and> ls ! (length ls - 3) = ''        <color rgba="0.5 0.5 0.5 1.0"/>'')\<close>
proof -
  have box: \<open>generate_visual (YDict kvs) =
        Inr [''    <visual>'',
             ''      <geometry>'',
             ''        <box size="0.1 0.1 0.1"/>'',
             ''      </geometry>'',
             ''      <material name="mat_'' @ py_str name @ ''">'',
             ''        <color rgba="0.5 0.5 0.5 1.0"/>'',
             ''      </material>'',
             ''    </visual>'']\<close>
    if "map_of kvs ''geometry'' = None" and "map_of kvs ''name'' = Some name"
    using that
    by (simp add: generate_visual_def geometry_lines_def dict_get_def getitem_def
        py_str_lit_0_1 py_str_lit_0_5 py_str_lit_1_0)
  show ?thesis using box default_color_line by blast
qed

theorem default_box_and_color_witness:
  \<open>generate_visual base_body =
        Inr [''    <visual>'',
             ''      <geometry>'',
             ''        <box size="0.1 0.1 0.1"/>'',
             ''      </geometry>'',
             ''      <material name="mat_base">'',
             ''        <color rgba="0.5 0.5 0.5 1.0"/>'',
             ''      </material>'',
             ''    </visual>''] \<and>
   generate_visual sphere_body = Inr sphere_visual_lines \<and>
   sphere_visual_lines ! 5 = ''        <color rgba="0.5 0.5 0.5 1.0"/>''\<close>
proof -
  have g: "map_of [(''name'', YStr ''base''), (''mass'', YInt 5), (''inertia'', zero_inertia)] ''geometry'' = None"
    by simp
  have n: "map_of [(''name'', YStr ''base''), (''mass'', YInt 5), (''inertia'', zero_inertia)] ''name''
             = Some (YStr ''base'')"
    by simp
  have v: "generate_visual sphere_body = Inr sphere_visual_lines" by code_simp
  have d: "dict_get sphere_body ''geometry'' (YDict [])
             = Inr (YDict [(''type'', YStr ''sphere''), (''size'', YInt 2)])"
    by (simp add: sphere_body_def dict_get_def)
  have c: "map_of [(''type'', YStr ''sphere''), (''size'', YInt 2)] ''visual_rgba'' = None" by simp
  have len: "length sphere_visual_lines - 3 = 5" by (simp add: sphere_visual_lines_def)
  show ?thesis
    using default_box_and_color
            [of "[(''name'', YStr ''base''), (''mass'', YInt 5), (''inertia'', zero_inertia)]"
                "YStr ''base''" sphere_body sphere_visual_lines
                "[(''type'', YStr ''sphere''), (''size'', YInt 2)]"]
          g n v d c len
    by (simp add: base_body_def py_str_def)
qed

lemma and_then_Inr_E:
  assumes "and_then r f = Inr y"
  obtains v where "r = Inr v" and "f v = Inr y"
  using assms by (cases r) simp_all

lemma generate_inertial_shape:
  assumes "generate_inertial body = Inr v"
  shows "\<exists>mass ixx ixy ixz iyy iyz izz. v = inertial_block mass ixx ixy ixz iyy iyz izz"
  using assms unfolding generate_inertial_def inertial_block_def
  by (elim and_then_Inr_E) blast

lemma inertial_block_indent:
  assumes "l \<in> set (inertial_block mass ixx ixy ixz iyy iyz izz)"
  shows "l = ''    <inertial>'' \<or> l = ''    </inertial>'' \<or> prefix ''      '' l"
  using assms unfolding inertial_block_def list.set
  by (elim insertE emptyE) simp_all

lemma geometry_lines_indent:
  assumes "geometry_lines geom t = Inr gl" and "l \<in> set gl"
  shows "\<exists>rest. l = ''      '' @ rest"
proof -
  consider (box) "t = YStr ''box''" | (sphere) "t = YStr ''sphere''"
    | (cylinder) "t = YStr ''cylinder''" | (capsule) "t = YStr ''capsule''"
    | (other) "t \<noteq> YStr ''box''" "t \<noteq> YStr ''sphere''" "t \<noteq> YStr ''cylinder''" "t \<noteq> YStr ''capsule''"
    by blast
  then show ?thesis
  proof cases
    case box
    with assms(1) obtain a where \<open>gl = [''      <geometry>'', ''      '' @ a, ''      </geometry>'']\<close>
      unfolding geometry_lines_def by (auto simp: and_then_eq_Inr)
    with assms(2) show ?thesis by auto
  next
    case sphere
    with assms(1) obtain a where \<open>gl = [''      <geometry>'', ''      '' @ a, ''      </geometry>'']\<close>
      unfolding geometry_lines_def by (auto simp: and_then_eq_Inr)
    with assms(2) show ?thesis by auto
  next
    case cylinder
    with assms(1) obtain a where \<open>gl = [''      <geometry>'', ''      '' @ a, ''      </geometry>'']\<close>
      unfolding geometry_lines_def by (auto simp: and_then_eq_Inr)
    with assms(2) show ?thesis by auto
  next
    case capsule
    with assms(1) obtain a where \<open>gl = [''      <geometry>'', ''      '' @ a, ''      </geometry>'']\<close>
      unfolding geometry_lines_def by (auto simp: and_then_eq_Inr)
    with assms(2) show ?thesis by auto
  next
    case other
    with assms(1) have "gl = []" unfolding geometry_lines_def by simp
    with assms(2) show ?thesis by simp
  qed
qed

lemma generate_inertial_indent:
  assumes "generate_inertial body = Inr v" and "l \<in> set v"
  shows "l = ''    <inertial>'' \<or> l = ''    </inertial>'' \<or> prefix ''      '' l"
  using generate_inertial_shape [OF assms(1)] assms(2) inertial_block_indent by blast

lemma generate_visual_indent:
  assumes "generate_visual body = Inr v" and "l \<in> set v"
  shows "l = ''    <visual>'' \<or> l = ''    </visual>'' \<or> prefix ''      '' l"
proof -
  from assms(1) obtain geom t gl a b where
    gl: "geometry_lines geom t = Inr gl"
    and v: "v = [''    <visual>''] @ gl @ [''      '' @ a, ''      '' @ b, ''      </material>'', ''    </visual>'']"
    unfolding generate_visual_def by (elim and_then_Inr_E) auto
  from assms(2) v consider "l = ''    <visual>''" | "l \<in> set gl" | "l = ''      '' @ a"
    | "l = ''      '' @ b" | "l = ''      </material>''" | "l = ''    </visual>''"
    by auto
  then show ?thesis
    using geometry_lines_indent [OF gl] by cases (auto simp: prefix_def)
qed

lemma axis_lines_cases:
  assumes "getitem segment ''joint'' = Inr (YDict j)" and "axis_lines segment = Inr ap"
  shows \<open>(map_of j ''axis'' = None \<and> ap = []) \<or>
         (\<exists>ax a0 a1 a2. map_of j ''axis'' = Some ax \<and> getindex ax 0 = Inr a0 \<and>
             getindex ax 1 = Inr a1 \<and> getindex ax 2 = Inr a2 \<and>
             ap = [''    <axis xyz="'' @ py_str a0 @ '' '' @ py_str a1 @ '' '' @ py_str a2 @ ''"/>''])\<close>
  using assms unfolding axis_lines_def
  by (auto simp: and_then_eq_Inr py_in_def getitem_def split: if_splits option.splits)

lemma limit_lines_pair:
  assumes "getitem segment ''joint'' = Inr (YDict j)" and "map_of j ''limits'' = Some (YList [lo, up])"
  shows \<open>limit_lines segment
           = Inr [''    <limit lower="'' @ py_str lo @ ''" upper="'' @ py_str up @ ''"/>'']\<close>
  using assms by (simp add: limit_lines_def py_in_def getitem_def is_list_of_two_def getindex_def)

lemma limit_lines_absent:
  assumes "getitem segment ''joint'' = Inr (YDict j)" and "map_of j ''limits'' = None"
  shows "limit_lines segment = Inr []"
  using assms by (simp add: limit_lines_def py_in_def)

lemma limit_lines_other_shape:
  assumes "getitem segment ''joint'' = Inr (YDict j)" and "map_of j ''limits'' = Some v"
    and "\<not> is_list_of_two v"
  shows "limit_lines segment = Inr []"
  using assms by (simp add: limit_lines_def py_in_def getitem_def)

lemma is_list_of_two_iff: "is_list_of_two v \<longleftrightarrow> (\<exists>lo up. v = YList [lo, up])"
  by (cases v) (auto simp: is_list_of_two_def length_Suc_conv numeral_2_eq_2)

lemma limit_lines_cases:
  assumes "getitem segment ''joint'' = Inr (YDict j)" and "limit_lines segment = Inr lp"
  shows \<open>(\<not> (\<exists>lo up. map_of j ''limits'' = Some (YList [lo, up])) \<and> lp = []) \<or>
         (\<exists>lo up. map_of j ''limits'' = Some (YList [lo, up]) \<and>
            lp = [''    <limit lower="'' @ py_str lo @ ''" upper="'' @ py_str up @ ''"/>''])\<close>
proof (cases "map_of j ''limits''")
  case None
  with limit_lines_absent [OF assms(1)] assms(2) show ?thesis by simp
next
  case (Some v)
  show ?thesis
  proof (cases "is_list_of_two v")
    case True
    then obtain lo up where "v = YList [lo, up]" using is_list_of_two_iff by blast
    with Some limit_lines_pair [OF assms(1)] assms(2) show ?thesis by simp
  next
    case False
    with Some limit_lines_other_shape [OF assms(1)] assms(2) is_list_of_two_iff
    show ?thesis by auto
  qed
qed

lemma elbow_segment_generated: "\<not> isl (generate_segment_urdf elbow_segment (YStr ''base''))"
  by code_simp

section \<open>C6: axis and limit of a joint\<close>

text \<open>
  C6. For a segment whose joint is a mapping: limits of any shape other than a list of two
  add no line and raise nothing; and in every block the segment generates, there is an axis
  line exactly when the joint has an \<^verbatim>\<open>axis\<close> entry (for an axis \<^verbatim>\<open>[x, y, z]\<close> it is the fourth
  line and holds \<^verbatim>\<open>str\<close> of x, y and z in this order), and a limit line exactly when the
  \<^verbatim>\<open>limits\<close> entry is a list of two, with \<^verbatim>\<open>str\<close> of the first as lower and of the second as
  upper.
\<close>

theorem axis_and_limit_emission:
  assumes "getitem segment ''joint'' = Inr (YDict j)"
  shows \<open>(\<forall>v. map_of j ''limits'' = Some v \<and> \<not> is_list_of_two v \<longrightarrow> limit_lines segment = Inr []) \<and>
         (\<forall>parent_name b. generate_segment_urdf segment parent_name = Inr b \<longrightarrow>
            ((\<exists>l \<in> set b. prefix ''    <axis '' l) \<longleftrightarrow> map_of j ''axis'' \<noteq> None) \<and>
            (\<forall>x y z. map_of j ''axis'' = Some (YList [x, y, z]) \<longrightarrow>
               b ! 3 = ''    <axis xyz="'' @ py_str x @ '' '' @ py_str y @ '' '' @ py_str z @ ''"/>'') \<and>
            ((\<exists>l \<in> set b. prefix ''    <limit '' l)
               \<longleftrightarrow> (\<exists>lo up. map_of j ''limits'' = Some (YList [lo, up]))) \<and>
            (\<forall>lo up. map_of j ''limits'' = Some (YList [lo, up]) \<longrightarrow>
               ''    <limit lower="'' @ py_str lo @ ''" upper="'' @ py_str up @ ''"/>'' \<in> set b))\<close>
proof -
  have block: \<open>((\<exists>l \<in> set b. prefix ''    <axis '' l) \<longleftrightarrow> map_of j ''axis'' \<noteq> None) \<and>
            (\<forall>x y z. map_of j ''axis'' = Some (YList [x, y, z]) \<longrightarrow>
               b ! 3 = ''    <axis xyz="'' @ py_str x @ '' '' @ py_str y @ '' '' @ py_str z @ ''"/>'') \<and>
            ((\<exists>l \<in> set b. prefix ''    <limit '' l)
               \<longleftrightarrow> (\<exists>lo up. map_of j ''limits'' = Some (YList [lo, up]))) \<and>
            (\<forall>lo up. map_of j ''limits'' = Some (YList [lo, up]) \<longrightarrow>
               ''    <limit lower="'' @ py_str lo @ ''" upper="'' @ py_str up @ ''"/>'' \<in> set b)\<close>
    if gen: "generate_segment_urdf segment parent_name = Inr b" for parent_name b
  proof -
    from generate_segment_urdf_shape [OF gen]
    obtain h0 h1 h2 k ap lp inertial visual where
      ap: "axis_lines segment = Inr ap" and lp: "limit_lines segment = Inr lp"
      and gi: "generate_inertial segment = Inr inertial"
      and gv: "generate_visual segment = Inr visual"
      and b: "b = [''  <'' @ h0, ''    <parent '' @ h1, ''    <child '' @ h2] @ ap @ lp @
                  [''  </joint>'', ''  <'' @ k] @ inertial @ visual @ [''  </link>'']"
      by auto
    have mem: "l \<in> set b \<longleftrightarrow>
                 l = ''  <'' @ h0 \<or> l = ''    <parent '' @ h1 \<or> l = ''    <child '' @ h2 \<or>
                 l \<in> set ap \<or> l \<in> set lp \<or> l = ''  </joint>'' \<or> l = ''  <'' @ k \<or>
                 l \<in> set inertial \<or> l \<in> set visual \<or> l = ''  </link>''" for l
      unfolding b by auto
    have inertial: "\<not> prefix ''    <axis '' l \<and> \<not> prefix ''    <limit '' l"
      if "l \<in> set inertial" for l
      using generate_inertial_indent [OF gi that] by (auto simp: prefix_def)
    have visual: "\<not> prefix ''    <axis '' l \<and> \<not> prefix ''    <limit '' l"
      if "l \<in> set visual" for l
      using generate_visual_indent [OF gv that] by (auto simp: prefix_def)
    have in_ap: "prefix ''    <axis '' l" if "l \<in> set ap" for l
      using axis_lines_cases [OF assms ap] that by auto
    have in_lp: "prefix ''    <limit '' l" if "l \<in> set lp" for l
      using limit_lines_cases [OF assms lp] that by auto
    have ap_not_limit: "\<not> prefix ''    <limit '' l" if "l \<in> set ap" for l
      using in_ap [OF that] by (auto simp: prefix_def)
    have lp_not_axis: "\<not> prefix ''    <axis '' l" if "l \<in> set lp" for l
      using in_lp [OF that] by (auto simp: prefix_def)
    have axis_iff: "(\<exists>l \<in> set b. prefix ''    <axis '' l) \<longleftrightarrow> ap \<noteq> []"
    proof
      assume "\<exists>l \<in> set b. prefix ''    <axis '' l"
      then obtain l where l: "l \<in> set b" "prefix ''    <axis '' l" by blast
      from l(1) have "l \<in> set ap"
        unfolding mem using l(2) inertial visual lp_not_axis by auto
      then show "ap \<noteq> []" by auto
    next
      assume "ap \<noteq> []"
      then obtain l where "l \<in> set ap" by (cases ap) auto
      then show "\<exists>l \<in> set b. prefix ''    <axis '' l" using in_ap mem by blast
    qed
    have limit_iff: "(\<exists>l \<in> set b. prefix ''    <limit '' l) \<longleftrightarrow> lp \<noteq> []"
    proof
      assume "\<exists>l \<in> set b. prefix ''    <limit '' l"
      then obtain l where l: "l \<in> set b" "prefix ''    <limit '' l" by blast
      from l(1) have "l \<in> set lp"
        unfolding mem using l(2) inertial visual ap_not_limit by auto
      then show "lp \<noteq> []" by auto
    next
      assume "lp \<noteq> []"
      then obtain l where "l \<in> set lp" by (cases lp) auto
      then show "\<exists>l \<in> set b. prefix ''    <limit '' l" using in_lp mem by blast
    qed
    have a1: "ap \<noteq> [] \<longleftrightarrow> map_of j ''axis'' \<noteq> None"
      using axis_lines_cases [OF assms ap] by auto
    have l1: "lp \<noteq> [] \<longleftrightarrow> (\<exists>lo up. map_of j ''limits'' = Some (YList [lo, up]))"
      using limit_lines_cases [OF assms lp] by auto
    have a2: \<open>b ! 3 = ''    <axis xyz="'' @ py_str x @ '' '' @ py_str y @ '' '' @ py_str z @ ''"/>''\<close>
      if "map_of j ''axis'' = Some (YList [x, y, z])" for x y z
    proof -
      from axis_lines_cases [OF assms ap] that
      have \<open>ap = [''    <axis xyz="'' @ py_str x @ '' '' @ py_str y @ '' '' @ py_str z @ ''"/>'']\<close>
        by (auto simp: getindex_def)
      then show ?thesis unfolding b by simp
    qed
    have l2: \<open>''    <limit lower="'' @ py_str lo @ ''" upper="'' @ py_str up @ ''"/>'' \<in> set b\<close>
      if "map_of j ''limits'' = Some (YList [lo, up])" for lo up
    proof -
      from limit_lines_pair [OF assms that] lp
      have \<open>lp = [''    <limit lower="'' @ py_str lo @ ''" upper="'' @ py_str up @ ''"/>'']\<close>
        by simp
      then show ?thesis unfolding mem by simp
    qed
    show ?thesis using axis_iff limit_iff a1 l1 a2 l2 by blast
  qed
  show ?thesis using block limit_lines_other_shape [OF assms] by blast
qed

theorem axis_and_limit_emission_witness:
  \<open>limit_lines loose_segment = Inr [] \<and>
   projr (generate_segment_urdf elbow_segment (YStr ''base'')) ! 3 = ''    <axis xyz="0 1 0"/>'' \<and>
   ''    <limit lower="-1" upper="2"/>'' \<in> set (projr (generate_segment_urdf elbow_segment (YStr ''base'')))\<close>
proof -
  let ?je = "[(''type'', YStr ''revolute''), (''axis'', YList [YInt 0, YInt 1, YInt 0]),
              (''limits'', YList [YInt (- 1), YInt 2])]"
  let ?jl = "[(''type'', YStr ''fixed''), (''limits'', YList [YInt 0, YInt 1, YInt 2])]"
  let ?b = "projr (generate_segment_urdf elbow_segment (YStr ''base''))"
  have je: "getitem elbow_segment ''joint'' = Inr (YDict ?je)"
    by (simp add: elbow_segment_def getitem_def)
  have jl: "getitem loose_segment ''joint'' = Inr (YDict ?jl)"
    by (simp add: loose_segment_def getitem_def)
  have gen: "generate_segment_urdf elbow_segment (YStr ''base'') = Inr ?b"
    using elbow_segment_generated by simp
  have ax: "map_of ?je ''axis'' = Some (YList [YInt 0, YInt 1, YInt 0])" by simp
  have li: "map_of ?je ''limits'' = Some (YList [YInt (- 1), YInt 2])" by simp
  have ll: "map_of ?jl ''limits'' = Some (YList [YInt 0, YInt 1, YInt 2])" by simp
  have shape: "\<not> is_list_of_two (YList [YInt 0, YInt 1, YInt 2])"
    by (simp add: is_list_of_two_def)
  have loose: "limit_lines loose_segment = Inr []"
    using axis_and_limit_emission [OF jl] ll shape by blast
  have axis: \<open>?b ! 3 = ''    <axis xyz="'' @ py_str (YInt 0) @ '' '' @ py_str (YInt 1) @ '' ''
                          @ py_str (YInt 0) @ ''"/>''\<close>
    using axis_and_limit_emission [OF je] gen ax by blast
  have limit: \<open>''    <limit lower="'' @ py_str (YInt (- 1)) @ ''" upper="'' @ py_str (YInt 2) @ ''"/>''
                 \<in> set ?b\<close>
    using axis_and_limit_emission [OF je] gen li by blast
  have p: "py_str (YInt 0) = ''0''" "py_str (YInt 1) = ''1''" "py_str (YInt (- 1)) = ''-1''"
    "py_str (YInt 2) = ''2''"
    by code_simp+
  show ?thesis using loose axis limit unfolding p by simp
qed

end
